theory Spec2Isabelle
  imports Main
begin

section \<open>Python values and strings\<close>

text \<open>
  The module \<^verbatim>\<open>caravel/db_engine_specs.py\<close> is a table of SQL templates indexed by a
  hierarchy of static classes, three string-building class methods per class and a
  registry dictionary built from the module's global names.  The templates and the
  SQL texts built from them are Isabelle \<^typ>\<open>string\<close>s, whose characters the module
  copies and never inspects; exceptions are values of the type \<open>error\<close>, and a Python
  expression that may raise has the type \<open>error + 'a\<close>.
\<close>

datatype error =
    NotImplementedError
  | TypeError
  | NameError string
  | AttributeError string
  | KeyError string
  | IndexError
  | ValueError
  | NotModelled
  | UnknownEngineError

text \<open>
  \<^verbatim>\<open>str.replace(old, new)\<close>: every non-overlapping occurrence of \<open>old\<close>, scanning from
  the left.  For an empty \<open>old\<close> Python inserts \<open>new\<close> before every character and at
  the end.
\<close>

function str_replace :: "string \<Rightarrow> string \<Rightarrow> string \<Rightarrow> string" where
  "str_replace s old new =
     (if old = [] then concat (map (\<lambda>c. new @ [c]) s) @ new
      else if s = [] then []
      else if take (length old) s = old
           then new @ str_replace (drop (length old) s) old new
           else hd s # str_replace (tl s) old new)"
  by pat_completeness auto
termination
  by (relation "measure (\<lambda>(s, old, new). length s)") auto

declare str_replace.simps [simp del]

text \<open>
  A text that the module only compares, such as the \<^verbatim>\<open>target_type\<close> of
  \<^verbatim>\<open>convert_dttm\<close>, is a Python \<^verbatim>\<open>str\<close>: a sequence of Unicode code points.
  \<open>codepoints\<close> gives the code points of an ASCII literal of the source.
\<close>

type_synonym unicode = "nat list"

definition codepoints :: "string \<Rightarrow> unicode" where
  "codepoints s = map of_char s"

text \<open>
  \<^verbatim>\<open>str.upper()\<close> replaces every code point by its full upper-case mapping, which may
  be up to three code points long and does not depend on the neighbours.  Below 128
  exactly the letters \<open>a\<close> to \<open>z\<close> change.  From 128 on the mapping is that of CPython
  3.11 (Unicode 14.0.0), written in two tables: \<open>upper_special\<close> lists the code points
  whose mapping is longer than one code point, and \<open>upper_ranges\<close> lists, as
  \<open>(lo, hi, step, target)\<close>, the runs of code points \<open>lo\<close>, \<open>lo + step\<close>, ..., \<open>hi\<close>
  that map to \<open>target\<close>, \<open>target + step\<close>, ... in the same order.  A code point
  in neither table is its own upper case.
\<close>

definition upper_special :: "(nat \<times> nat list) list" where
  "upper_special =
   [
    (223, [83, 83]), (329, [700, 78]), (496, [74, 780]), (912, [921, 776, 769]),
    (944, [933, 776, 769]), (1415, [1333, 1362]), (7830, [72, 817]), (7831, [84, 776]),
    (7832, [87, 778]), (7833, [89, 778]), (7834, [65, 702]), (8016, [933, 787]),
    (8018, [933, 787, 768]), (8020, [933, 787, 769]), (8022, [933, 787, 834]),
    (8064, [7944, 921]), (8065, [7945, 921]), (8066, [7946, 921]), (8067, [7947, 921]),
    (8068, [7948, 921]), (8069, [7949, 921]), (8070, [7950, 921]), (8071, [7951, 921]),
    (8072, [7944, 921]), (8073, [7945, 921]), (8074, [7946, 921]), (8075, [7947, 921]),
    (8076, [7948, 921]), (8077, [7949, 921]), (8078, [7950, 921]), (8079, [7951, 921]),
    (8080, [7976, 921]), (8081, [7977, 921]), (8082, [7978, 921]), (8083, [7979, 921]),
    (8084, [7980, 921]), (8085, [7981, 921]), (8086, [7982, 921]), (8087, [7983, 921]),
    (8088, [7976, 921]), (8089, [7977, 921]), (8090, [7978, 921]), (8091, [7979, 921]),
    (8092, [7980, 921]), (8093, [7981, 921]), (8094, [7982, 921]), (8095, [7983, 921]),
    (8096, [8040, 921]), (8097, [8041, 921]), (8098, [8042, 921]), (8099, [8043, 921]),
    (8100, [8044, 921]), (8101, [8045, 921]), (8102, [8046, 921]), (8103, [8047, 921]),
    (8104, [8040, 921]), (8105, [8041, 921]), (8106, [8042, 921]), (8107, [8043, 921]),
    (8108, [8044, 921]), (8109, [8045, 921]), (8110, [8046, 921]), (8111, [8047, 921]),
    (8114, [8122, 921]), (8115, [913, 921]), (8116, [902, 921]), (8118, [913, 834]),
    (8119, [913, 834, 921]), (8124, [913, 921]), (8130, [8138, 921]), (8131, [919, 921]),
    (8132, [905, 921]), (8134, [919, 834]), (8135, [919, 834, 921]), (8140, [919, 921]),
    (8146, [921, 776, 768]), (8147, [921, 776, 769]), (8150, [921, 834]),
    (8151, [921, 776, 834]), (8162, [933, 776, 768]), (8163, [933, 776, 769]),
    (8164, [929, 787]), (8166, [933, 834]), (8167, [933, 776, 834]), (8178, [8186, 921]),
    (8179, [937, 921]), (8180, [911, 921]), (8182, [937, 834]), (8183, [937, 834, 921]),
    (8188, [937, 921]), (64256, [70, 70]), (64257, [70, 73]), (64258, [70, 76]),
    (64259, [70, 70, 73]), (64260, [70, 70, 76]), (64261, [83, 84]), (64262, [83, 84]),
    (64275, [1348, 1350]), (64276, [1348, 1333]), (64277, [1348, 1339]), (64278, [1358, 1350]),
    (64279, [1348, 1341])
   ]"

definition upper_ranges :: "(nat \<times> nat \<times> nat \<times> nat) list" where
  "upper_ranges =
   [
    (181, 181, 1, 924), (224, 246, 1, 192), (248, 254, 1, 216), (255, 255, 1, 376),
    (257, 303, 2, 256), (305, 305, 1, 73), (307, 311, 2, 306), (314, 328, 2, 313),
    (331, 375, 2, 330), (378, 382, 2, 377), (383, 383, 1, 83), (384, 384, 1, 579),
    (387, 389, 2, 386), (392, 392, 1, 391), (396, 396, 1, 395), (402, 402, 1, 401),
    (405, 405, 1, 502), (409, 409, 1, 408), (410, 410, 1, 573), (414, 414, 1, 544),
    (417, 421, 2, 416), (424, 424, 1, 423), (429, 429, 1, 428), (432, 432, 1, 431),
    (436, 438, 2, 435), (441, 441, 1, 440), (445, 445, 1, 444), (447, 447, 1, 503),
    (453, 453, 1, 452), (454, 454, 1, 452), (456, 456, 1, 455), (457, 457, 1, 455),
    (459, 459, 1, 458), (460, 460, 1, 458), (462, 476, 2, 461), (477, 477, 1, 398),
    (479, 495, 2, 478), (498, 498, 1, 497), (499, 499, 1, 497), (501, 501, 1, 500),
    (505, 543, 2, 504), (547, 563, 2, 546), (572, 572, 1, 571), (575, 576, 1, 11390),
    (578, 578, 1, 577), (583, 591, 2, 582), (592, 592, 1, 11375), (593, 593, 1, 11373),
    (594, 594, 1, 11376), (595, 595, 1, 385), (596, 596, 1, 390), (598, 599, 1, 393),
    (601, 601, 1, 399), (603, 603, 1, 400), (604, 604, 1, 42923), (608, 608, 1, 403),
    (609, 609, 1, 42924), (611, 611, 1, 404), (613, 613, 1, 42893), (614, 614, 1, 42922),
    (616, 616, 1, 407), (617, 617, 1, 406), (618, 618, 1, 42926), (619, 619, 1, 11362),
    (620, 620, 1, 42925), (623, 623, 1, 412), (625, 625, 1, 11374), (626, 626, 1, 413),
    (629, 629, 1, 415), (637, 637, 1, 11364), (640, 640, 1, 422), (642, 642, 1, 42949),
    (643, 643, 1, 425), (647, 647, 1, 42929), (648, 648, 1, 430), (649, 649, 1, 580),
    (650, 651, 1, 433), (652, 652, 1, 581), (658, 658, 1, 439), (669, 669, 1, 42930),
    (670, 670, 1, 42928), (837, 837, 1, 921), (881, 883, 2, 880), (887, 887, 1, 886),
    (891, 893, 1, 1021), (940, 940, 1, 902), (941, 943, 1, 904), (945, 961, 1, 913),
    (962, 962, 1, 931), (963, 971, 1, 931), (972, 972, 1, 908), (973, 974, 1, 910),
    (976, 976, 1, 914), (977, 977, 1, 920), (981, 981, 1, 934), (982, 982, 1, 928),
    (983, 983, 1, 975), (985, 1007, 2, 984), (1008, 1008, 1, 922), (1009, 1009, 1, 929),
    (1010, 1010, 1, 1017), (1011, 1011, 1, 895), (1013, 1013, 1, 917), (1016, 1016, 1, 1015),
    (1019, 1019, 1, 1018), (1072, 1103, 1, 1040), (1104, 1119, 1, 1024), (1121, 1153, 2, 1120),
    (1163, 1215, 2, 1162), (1218, 1230, 2, 1217), (1231, 1231, 1, 1216), (1233, 1327, 2, 1232),
    (1377, 1414, 1, 1329), (4304, 4346, 1, 7312), (4349, 4351, 1, 7357), (5112, 5117, 1, 5104),
    (7296, 7296, 1, 1042), (7297, 7297, 1, 1044), (7298, 7298, 1, 1054), (7299, 7300, 1, 1057),
    (7301, 7301, 1, 1058), (7302, 7302, 1, 1066), (7303, 7303, 1, 1122),
    (7304, 7304, 1, 42570), (7545, 7545, 1, 42877), (7549, 7549, 1, 11363),
    (7566, 7566, 1, 42950), (7681, 7829, 2, 7680), (7835, 7835, 1, 7776),
    (7841, 7935, 2, 7840), (7936, 7943, 1, 7944), (7952, 7957, 1, 7960), (7968, 7975, 1, 7976),
    (7984, 7991, 1, 7992), (8000, 8005, 1, 8008), (8017, 8023, 2, 8025), (8032, 8039, 1, 8040),
    (8048, 8049, 1, 8122), (8050, 8053, 1, 8136), (8054, 8055, 1, 8154), (8056, 8057, 1, 8184),
    (8058, 8059, 1, 8170), (8060, 8061, 1, 8186), (8112, 8113, 1, 8120), (8126, 8126, 1, 921),
    (8144, 8145, 1, 8152), (8160, 8161, 1, 8168), (8165, 8165, 1, 8172), (8526, 8526, 1, 8498),
    (8560, 8575, 1, 8544), (8580, 8580, 1, 8579), (9424, 9449, 1, 9398),
    (11312, 11359, 1, 11264), (11361, 11361, 1, 11360), (11365, 11365, 1, 570),
    (11366, 11366, 1, 574), (11368, 11372, 2, 11367), (11379, 11379, 1, 11378),
    (11382, 11382, 1, 11381), (11393, 11491, 2, 11392), (11500, 11502, 2, 11499),
    (11507, 11507, 1, 11506), (11520, 11557, 1, 4256), (11559, 11559, 1, 4295),
    (11565, 11565, 1, 4301), (42561, 42605, 2, 42560), (42625, 42651, 2, 42624),
    (42787, 42799, 2, 42786), (42803, 42863, 2, 42802), (42874, 42876, 2, 42873),
    (42879, 42887, 2, 42878), (42892, 42892, 1, 42891), (42897, 42899, 2, 42896),
    (42900, 42900, 1, 42948), (42903, 42921, 2, 42902), (42933, 42947, 2, 42932),
    (42952, 42954, 2, 42951), (42961, 42961, 1, 42960), (42967, 42969, 2, 42966),
    (42998, 42998, 1, 42997), (43859, 43859, 1, 42931), (43888, 43967, 1, 5024),
    (65345, 65370, 1, 65313), (66600, 66639, 1, 66560), (66776, 66811, 1, 66736),
    (66967, 67003, 2, 66928), (66968, 66976, 2, 66929), (66980, 66992, 2, 66941),
    (66996, 67000, 2, 66957), (67004, 67004, 1, 66965), (68800, 68850, 1, 68736),
    (71872, 71903, 1, 71840), (93792, 93823, 1, 93760), (125218, 125251, 1, 125184)
   ]"

fun upper_range :: "(nat \<times> nat \<times> nat \<times> nat) list \<Rightarrow> nat \<Rightarrow> nat option" where
  "upper_range [] c = None"
| "upper_range ((lo, hi, step, target) # rs) c =
     (if lo \<le> c \<and> c \<le> hi \<and> (c - lo) mod step = 0
      then Some (target + (c - lo))
      else upper_range rs c)"

definition upper_char :: "nat \<Rightarrow> nat list" where
  "upper_char c =
     (if 97 \<le> c \<and> c \<le> 122 then [c - 32]
      else if c < 128 then [c]
      else (case map_of upper_special c of
              Some u \<Rightarrow> u
            | None \<Rightarrow> (case upper_range upper_ranges c of Some t \<Rightarrow> [t] | None \<Rightarrow> [c])))"

definition upper :: "unicode \<Rightarrow> unicode" where
  "upper s = concat (map upper_char s)"

text \<open>
  \<^verbatim>\<open>str.format(*args, **kwargs)\<close>, read from left to right as CPython does: \<open>{{\<close> and
  \<open>}}\<close> are escaped braces, \<open>{}\<close> takes the next positional argument, \<open>{name}\<close> the
  keyword argument \<open>name\<close>; a brace that is neither raises \<open>ValueError\<close>.  The
  replacement fields the module never writes (explicit indices, attribute and index
  access, conversions and format specifications) give \<open>NotModelled\<close>.  The arguments are
  strings already: the value substituted is never parsed again.
\<close>

definition field_value ::
    "string \<Rightarrow> string list \<Rightarrow> (string \<times> string) list \<Rightarrow> nat \<Rightarrow> error + string" where
  "field_value f args kwargs i =
     (if f = [] then (if i < length args then Inr (args ! i) else Inl IndexError)
      else if list_ex (\<lambda>c. c \<in> set ''.[]!:{'') f \<or> list_all (\<lambda>c. c \<in> set ''0123456789'') f
           then Inl NotModelled
      else (case map_of kwargs f of None \<Rightarrow> Inl (KeyError f) | Some v \<Rightarrow> Inr v))"

fun format_from ::
    "string \<Rightarrow> string option \<Rightarrow> string list \<Rightarrow> (string \<times> string) list \<Rightarrow> nat \<Rightarrow> error + string" where
  "format_from [] None args kwargs i = Inr []"
| "format_from [] (Some f) args kwargs i = Inl ValueError"
| "format_from (c # cs) (Some f) args kwargs i =
     (if c = CHR ''}''
      then (case field_value f args kwargs i of
              Inl e \<Rightarrow> Inl e
            | Inr v \<Rightarrow>
                map_sum id ((@) v) (format_from cs None args kwargs (if f = [] then Suc i else i)))
      else format_from cs (Some (f @ [c])) args kwargs i)"
| "format_from (c # cs) None args kwargs i =
     (if c = CHR ''{''
      then (case cs of
              [] \<Rightarrow> Inl ValueError
            | d # ds \<Rightarrow>
                if d = CHR ''{''
                then map_sum id ((#) CHR ''{'') (format_from ds None args kwargs i)
                else format_from cs (Some []) args kwargs i)
      else if c = CHR ''}''
      then (case cs of
              [] \<Rightarrow> Inl ValueError
            | d # ds \<Rightarrow>
                if d = CHR ''}''
                then map_sum id ((#) CHR ''}'') (format_from ds None args kwargs i)
                else Inl ValueError)
      else map_sum id ((#) c) (format_from cs None args kwargs i))"

definition format :: "string \<Rightarrow> string list \<Rightarrow> (string \<times> string) list \<Rightarrow> error + string" where
  "format template args kwargs = format_from template None args kwargs 0"

section \<open>Datetime values\<close>

text \<open>
  A \<^verbatim>\<open>datetime.datetime\<close> without time zone: the module formats the fields it is given
  and converts nothing.  The constructor of Python accepts exactly the values of
  \<open>valid_datetime\<close>.
\<close>

record datetime =
  year :: nat
  month :: nat
  day :: nat
  hour :: nat
  minute :: nat
  second :: nat
  microsecond :: nat

definition is_leap :: "nat \<Rightarrow> bool" where
  "is_leap y = (y mod 4 = 0 \<and> (y mod 100 \<noteq> 0 \<or> y mod 400 = 0))"

definition days_in_month :: "nat \<Rightarrow> nat \<Rightarrow> nat" where
  "days_in_month y m =
     (if m = 2 then (if is_leap y then 29 else 28)
      else if m = 4 \<or> m = 6 \<or> m = 9 \<or> m = 11 then 30
      else 31)"

definition valid_datetime :: "datetime \<Rightarrow> bool" where
  "valid_datetime d =
     (1 \<le> year d \<and> year d \<le> 9999 \<and> 1 \<le> month d \<and> month d \<le> 12 \<and>
      1 \<le> day d \<and> day d \<le> days_in_month (year d) (month d) \<and>
      hour d < 24 \<and> minute d < 60 \<and> second d < 60 \<and> microsecond d < 1000000)"

text \<open>Decimal digits of a number, and the same padded with zeros on the left.\<close>

fun decimal :: "nat \<Rightarrow> string" where
  "decimal n =
     (if n < 10 then [''0123456789'' ! n]
      else decimal (n div 10) @ [''0123456789'' ! (n mod 10)])"

declare decimal.simps [simp del]

definition zero_padded :: "nat \<Rightarrow> nat \<Rightarrow> string" where
  "zero_padded w n = replicate (w - length (decimal n)) (CHR ''0'') @ decimal n"

text \<open>
  \<^verbatim>\<open>datetime.strftime(fmt)\<close> for the directives the module uses, as the C library
  under CPython prints them: \<open>%Y\<close> is the year in decimal without padding, so that a
  year below 1000 has fewer than four digits; the other fields are two digits wide.
  Any other directive is copied as it stands.
\<close>

definition directive :: "char \<Rightarrow> datetime \<Rightarrow> string" where
  "directive x d =
     (if x = CHR ''Y'' then decimal (year d)
      else if x = CHR ''m'' then zero_padded 2 (month d)
      else if x = CHR ''d'' then zero_padded 2 (day d)
      else if x = CHR ''H'' then zero_padded 2 (hour d)
      else if x = CHR ''M'' then zero_padded 2 (minute d)
      else if x = CHR ''S'' then zero_padded 2 (second d)
      else if x = CHR ''%'' then ''%''
      else [CHR ''%'', x])"

fun strftime :: "datetime \<Rightarrow> string \<Rightarrow> string" where
  "strftime d [] = []"
| "strftime d [c] = [c]"
| "strftime d (c # x # cs) =
     (if c = CHR ''%'' then directive x d @ strftime d cs else c # strftime d (x # cs))"

text \<open>
  \<^verbatim>\<open>datetime.isoformat()\<close>: \<open>YYYY-MM-DDTHH:MM:SS\<close>, followed by \<open>.ffffff\<close> when the
  microsecond field is not zero.
\<close>

definition isoformat :: "datetime \<Rightarrow> string" where
  "isoformat d =
     zero_padded 4 (year d) @ ''-'' @ zero_padded 2 (month d) @ ''-'' @ zero_padded 2 (day d)
     @ ''T'' @ zero_padded 2 (hour d) @ '':'' @ zero_padded 2 (minute d) @ '':''
     @ zero_padded 2 (second d)
     @ (if microsecond d = 0 then [] else ''.'' @ zero_padded 6 (microsecond d))"

section \<open>Grains and the class hierarchy\<close>

text \<open>
  \<^verbatim>\<open>Grain = namedtuple('Grain', 'name label function')\<close>.  The label is the lazy
  translation proxy that \<^verbatim>\<open>flask_babel.lazy_gettext\<close> (imported as \<^verbatim>\<open>_\<close>) returns for a
  message; the module stores it and never reads it.  The field \<^verbatim>\<open>function\<close> is written
  \<open>function'\<close>.
\<close>

datatype LazyString = lazy_gettext string

datatype Grain = Grain (name: string) (label: LazyString) (function': string)

text \<open>The nine classes of the module, and the one base class each of them names.\<close>

datatype cls =
    BaseEngineSpec
  | PostgresEngineSpec
  | SqliteEngineSpec
  | MySQLEngineSpec
  | PrestoEngineSpec
  | MssqlEngineSpec
  | RedshiftEngineSpec
  | OracleEngineSpec
  | VerticaEngineSpec

fun base_class :: "cls \<Rightarrow> cls option" where
  "base_class BaseEngineSpec = None"
| "base_class PostgresEngineSpec = Some BaseEngineSpec"
| "base_class SqliteEngineSpec = Some BaseEngineSpec"
| "base_class MySQLEngineSpec = Some BaseEngineSpec"
| "base_class PrestoEngineSpec = Some BaseEngineSpec"
| "base_class MssqlEngineSpec = Some BaseEngineSpec"
| "base_class RedshiftEngineSpec = Some PostgresEngineSpec"
| "base_class OracleEngineSpec = Some PostgresEngineSpec"
| "base_class VerticaEngineSpec = Some PostgresEngineSpec"

fun depth :: "cls \<Rightarrow> nat" where
  "depth BaseEngineSpec = 0"
| "depth RedshiftEngineSpec = 2"
| "depth OracleEngineSpec = 2"
| "depth VerticaEngineSpec = 2"
| "depth c = 1"

text \<open>
  The method resolution order of a class (without \<^verbatim>\<open>object\<close>, which defines none of
  the attributes below): the class, then the order of its base.
\<close>

function mro :: "cls \<Rightarrow> cls list" where
  "mro c = c # (case base_class c of None \<Rightarrow> [] | Some b \<Rightarrow> mro b)"
  by pat_completeness auto
termination
  by (relation "measure depth") (auto elim: base_class.elims)

declare mro.simps [simp del]

text \<open>
  Attribute lookup on a class: the first class of the resolution order whose own
  namespace binds the name; \<open>own\<close> is that namespace's entry, class by class.
\<close>

definition getattr :: "(cls \<Rightarrow> 'a option) \<Rightarrow> string \<Rightarrow> cls \<Rightarrow> error + 'a" where
  "getattr own attr c =
     (case List.map_filter own (mro c) of
        [] \<Rightarrow> Inl (AttributeError attr)
      | v # _ \<Rightarrow> Inr v)"

subsection \<open>\<^verbatim>\<open>engine\<close>\<close>

text \<open>Every class body assigns its own \<^verbatim>\<open>engine\<close>.\<close>

fun engine :: "cls \<Rightarrow> string" where
  "engine BaseEngineSpec = ''base''"
| "engine PostgresEngineSpec = ''postgres''"
| "engine SqliteEngineSpec = ''sqlite''"
| "engine MySQLEngineSpec = ''mysql''"
| "engine PrestoEngineSpec = ''presto''"
| "engine MssqlEngineSpec = ''mssql''"
| "engine RedshiftEngineSpec = ''redshift''"
| "engine OracleEngineSpec = ''oracle''"
| "engine VerticaEngineSpec = ''vertica''"

subsection \<open>\<^verbatim>\<open>time_grains\<close>\<close>

fun time_grains_own :: "cls \<Rightarrow> Grain list option" where
  "time_grains_own BaseEngineSpec = Some []"
| "time_grains_own PostgresEngineSpec = Some
     [Grain ''Time Column'' (lazy_gettext ''Time Column'') ''{col}'',
      Grain ''second'' (lazy_gettext ''second'') ''DATE_TRUNC('second', {col})'',
      Grain ''minute'' (lazy_gettext ''minute'') ''DATE_TRUNC('minute', {col})'',
      Grain ''hour'' (lazy_gettext ''hour'') ''DATE_TRUNC('hour', {col})'',
      Grain ''day'' (lazy_gettext ''day'') ''DATE_TRUNC('day', {col})'',
      Grain ''week'' (lazy_gettext ''week'') ''DATE_TRUNC('week', {col})'',
      Grain ''month'' (lazy_gettext ''month'') ''DATE_TRUNC('month', {col})'',
      Grain ''quarter'' (lazy_gettext ''quarter'') ''DATE_TRUNC('quarter', {col})'',
      Grain ''year'' (lazy_gettext ''year'') ''DATE_TRUNC('year', {col})'']"
| "time_grains_own SqliteEngineSpec = Some
     [Grain ''Time Column'' (lazy_gettext ''Time Column'') ''{col}'',
      Grain ''day'' (lazy_gettext ''day'') ''DATE({col})'',
      Grain ''week'' (lazy_gettext ''week'')
        ''DATE({col}, -strftime('%w', {col}) || ' days')'',
      Grain ''month'' (lazy_gettext ''month'')
        ''DATE({col}, -strftime('%d', {col}) || ' days')'']"
| "time_grains_own MySQLEngineSpec = Some
     [Grain ''Time Column'' (lazy_gettext ''Time Column'') ''{col}'',
      Grain ''second'' (lazy_gettext ''second'') (''DATE_ADD(DATE({col}), ''
        @ ''INTERVAL (HOUR({col})*60*60 + MINUTE({col})*60''
        @ '' + SECOND({col})) SECOND)''),
      Grain ''minute'' (lazy_gettext ''minute'') (''DATE_ADD(DATE({col}), ''
        @ ''INTERVAL (HOUR({col})*60 + MINUTE({col})) MINUTE)''),
      Grain ''hour'' (lazy_gettext ''hour'') (''DATE_ADD(DATE({col}), ''
        @ ''INTERVAL HOUR({col}) HOUR)''),
      Grain ''day'' (lazy_gettext ''day'') ''DATE({col})'',
      Grain ''week'' (lazy_gettext ''week'') (''DATE(DATE_SUB({col}, ''
        @ ''INTERVAL DAYOFWEEK({col}) - 1 DAY))''),
      Grain ''month'' (lazy_gettext ''month'') (''DATE(DATE_SUB({col}, ''
        @ ''INTERVAL DAYOFMONTH({col}) - 1 DAY))'')]"
| "time_grains_own PrestoEngineSpec = Some
     [Grain ''Time Column'' (lazy_gettext ''Time Column'') ''{col}'',
      Grain ''second'' (lazy_gettext ''second'')
        ''date_trunc('second', CAST({col} AS TIMESTAMP))'',
      Grain ''minute'' (lazy_gettext ''minute'')
        ''date_trunc('minute', CAST({col} AS TIMESTAMP))'',
      Grain ''hour'' (lazy_gettext ''hour'')
        ''date_trunc('hour', CAST({col} AS TIMESTAMP))'',
      Grain ''day'' (lazy_gettext ''day'')
        ''date_trunc('day', CAST({col} AS TIMESTAMP))'',
      Grain ''week'' (lazy_gettext ''week'')
        ''date_trunc('week', CAST({col} AS TIMESTAMP))'',
      Grain ''month'' (lazy_gettext ''month'')
        ''date_trunc('month', CAST({col} AS TIMESTAMP))'',
      Grain ''quarter'' (lazy_gettext ''quarter'')
        ''date_trunc('quarter', CAST({col} AS TIMESTAMP))'',
      Grain ''week_ending_saturday'' (lazy_gettext ''week_ending_saturday'')
        (''date_add('day', 5, date_trunc('week', date_add('day', 1, ''
         @ ''CAST({col} AS TIMESTAMP))))''),
      Grain ''week_start_sunday'' (lazy_gettext ''week_start_sunday'')
        (''date_add('day', -1, date_trunc('week', ''
         @ ''date_add('day', 1, CAST({col} AS TIMESTAMP))))'')]"
| "time_grains_own MssqlEngineSpec = Some
     [Grain ''Time Column'' (lazy_gettext ''Time Column'') ''{col}'',
      Grain ''second'' (lazy_gettext ''second'') (''DATEADD(second, ''
        @ ''DATEDIFF(second, '2000-01-01', {col}), '2000-01-01')''),
      Grain ''minute'' (lazy_gettext ''minute'') (''DATEADD(minute, ''
        @ ''DATEDIFF(minute, 0, {col}), 0)''),
      Grain ''5 minute'' (lazy_gettext ''5 minute'') (''DATEADD(minute, ''
        @ ''DATEDIFF(minute, 0, {col}) / 5 * 5, 0)''),
      Grain ''half hour'' (lazy_gettext ''half hour'') (''DATEADD(minute, ''
        @ ''DATEDIFF(minute, 0, {col}) / 30 * 30, 0)''),
      Grain ''hour'' (lazy_gettext ''hour'') (''DATEADD(hour, ''
        @ ''DATEDIFF(hour, 0, {col}), 0)''),
      Grain ''day'' (lazy_gettext ''day'') (''DATEADD(day, ''
        @ ''DATEDIFF(day, 0, {col}), 0)''),
      Grain ''week'' (lazy_gettext ''week'') (''DATEADD(week, ''
        @ ''DATEDIFF(week, 0, {col}), 0)''),
      Grain ''month'' (lazy_gettext ''month'') (''DATEADD(month, ''
        @ ''DATEDIFF(month, 0, {col}), 0)''),
      Grain ''quarter'' (lazy_gettext ''quarter'') (''DATEADD(quarter, ''
        @ ''DATEDIFF(quarter, 0, {col}), 0)''),
      Grain ''year'' (lazy_gettext ''year'') (''DATEADD(year, ''
        @ ''DATEDIFF(year, 0, {col}), 0)'')]"
| "time_grains_own RedshiftEngineSpec = None"
| "time_grains_own OracleEngineSpec = None"
| "time_grains_own VerticaEngineSpec = None"

definition time_grains :: "cls \<Rightarrow> error + Grain list" where
  "time_grains c = getattr time_grains_own ''time_grains'' c"

subsection \<open>\<^verbatim>\<open>epoch_to_dttm\<close> and \<^verbatim>\<open>epoch_ms_to_dttm\<close>\<close>

text \<open>
  The name \<^verbatim>\<open>epoch_to_dttm\<close> is bound to a class method in five class bodies and to a
  plain string in the body of \<^verbatim>\<open>MssqlEngineSpec\<close>.  Calling a string raises
  \<^verbatim>\<open>TypeError\<close>.
\<close>

datatype attr = ClassMethod "cls \<Rightarrow> error + string" | StrValue string

fun epoch_to_dttm_own :: "cls \<Rightarrow> attr option" where
  "epoch_to_dttm_own BaseEngineSpec = Some (ClassMethod (\<lambda>cls. Inl NotImplementedError))"
| "epoch_to_dttm_own PostgresEngineSpec =
     Some (ClassMethod (\<lambda>cls. Inr ''(timestamp 'epoch' + {col} * interval '1 second')''))"
| "epoch_to_dttm_own SqliteEngineSpec =
     Some (ClassMethod (\<lambda>cls. Inr ''datetime({col}, 'unixepoch')''))"
| "epoch_to_dttm_own MySQLEngineSpec = Some (ClassMethod (\<lambda>cls. Inr ''from_unixtime({col})''))"
| "epoch_to_dttm_own PrestoEngineSpec = Some (ClassMethod (\<lambda>cls. Inr ''from_unixtime({col})''))"
| "epoch_to_dttm_own MssqlEngineSpec = Some (StrValue ''dateadd(S, {col}, '1970-01-01')'')"
| "epoch_to_dttm_own RedshiftEngineSpec = None"
| "epoch_to_dttm_own OracleEngineSpec = None"
| "epoch_to_dttm_own VerticaEngineSpec = None"

fun call :: "attr \<Rightarrow> cls \<Rightarrow> error + string" where
  "call (ClassMethod f) c = f c"
| "call (StrValue s) c = Inl TypeError"

text \<open>The expression \<^verbatim>\<open>cls.epoch_to_dttm()\<close>.\<close>

definition epoch_to_dttm :: "cls \<Rightarrow> error + string" where
  "epoch_to_dttm c =
     (case getattr epoch_to_dttm_own ''epoch_to_dttm'' c of
        Inl e \<Rightarrow> Inl e
      | Inr a \<Rightarrow> call a c)"

text \<open>
  \<^verbatim>\<open>epoch_ms_to_dttm\<close> is defined once, in \<^verbatim>\<open>BaseEngineSpec\<close>, and dispatches on the
  class it is called on.
\<close>

fun epoch_ms_to_dttm_own :: "cls \<Rightarrow> (cls \<Rightarrow> error + string) option" where
  "epoch_ms_to_dttm_own BaseEngineSpec =
     Some (\<lambda>cls. case epoch_to_dttm cls of
                    Inl e \<Rightarrow> Inl e
                  | Inr s \<Rightarrow> Inr (str_replace s ''{col}'' ''({col}/1000.0)''))"
| "epoch_ms_to_dttm_own c = None"

definition epoch_ms_to_dttm :: "cls \<Rightarrow> error + string" where
  "epoch_ms_to_dttm c =
     (case getattr epoch_ms_to_dttm_own ''epoch_ms_to_dttm'' c of
        Inl e \<Rightarrow> Inl e
      | Inr f \<Rightarrow> f c)"

section \<open>Names and objects of the module\<close>

text \<open>
  The objects that a name of the module can be bound to, as far as the module looks at
  them: strings, datetimes, the nine classes, the named-tuple class \<^verbatim>\<open>Grain\<close>, and
  everything else (modules, functions, \<^verbatim>\<open>__future__\<close> features, the interpreter's
  own entries), which the module only passes by.
\<close>

datatype pyobject = Str unicode | Datetime datetime | Class cls | GrainClass | Opaque

text \<open>
  The global names of the module in the order they are bound, up to the point where
  \<^verbatim>\<open>engines\<close> is computed.
\<close>

definition module_globals :: "(string \<times> pyobject) list" where
  "module_globals =
     [(''__name__'', Opaque), (''__doc__'', Opaque), (''__package__'', Opaque),
      (''__loader__'', Opaque), (''__spec__'', Opaque), (''__file__'', Opaque),
      (''__cached__'', Opaque), (''__builtins__'', Opaque),
      (''absolute_import'', Opaque), (''division'', Opaque),
      (''print_function'', Opaque), (''unicode_literals'', Opaque),
      (''inspect'', Opaque), (''namedtuple'', Opaque), (''_'', Opaque),
      (''Grain'', GrainClass),
      (''BaseEngineSpec'', Class BaseEngineSpec),
      (''PostgresEngineSpec'', Class PostgresEngineSpec),
      (''SqliteEngineSpec'', Class SqliteEngineSpec),
      (''MySQLEngineSpec'', Class MySQLEngineSpec),
      (''PrestoEngineSpec'', Class PrestoEngineSpec),
      (''MssqlEngineSpec'', Class MssqlEngineSpec),
      (''RedshiftEngineSpec'', Class RedshiftEngineSpec),
      (''OracleEngineSpec'', Class OracleEngineSpec),
      (''VerticaEngineSpec'', Class VerticaEngineSpec)]"

text \<open>The names of the interpreter's \<^verbatim>\<open>builtins\<close> module (Python 2 and 3).\<close>

definition builtin_names :: "string list" where
  "builtin_names =
   [
    ''ArithmeticError'', ''AssertionError'', ''AttributeError'', ''BaseException'',
    ''BaseExceptionGroup'', ''BlockingIOError'', ''BrokenPipeError'', ''BufferError'',
    ''BytesWarning'', ''ChildProcessError'', ''ConnectionAbortedError'',
    ''ConnectionError'', ''ConnectionRefusedError'', ''ConnectionResetError'',
    ''DeprecationWarning'', ''EOFError'', ''Ellipsis'', ''EncodingWarning'',
    ''EnvironmentError'', ''Exception'', ''ExceptionGroup'', ''False'',
    ''FileExistsError'', ''FileNotFoundError'', ''FloatingPointError'', ''FutureWarning'',
    ''GeneratorExit'', ''IOError'', ''ImportError'', ''ImportWarning'',
    ''IndentationError'', ''IndexError'', ''InterruptedError'', ''IsADirectoryError'',
    ''KeyError'', ''KeyboardInterrupt'', ''LookupError'', ''MemoryError'',
    ''ModuleNotFoundError'', ''NameError'', ''None'', ''NotADirectoryError'',
    ''NotImplemented'', ''NotImplementedError'', ''OSError'', ''OverflowError'',
    ''PendingDeprecationWarning'', ''PermissionError'', ''ProcessLookupError'',
    ''RecursionError'', ''ReferenceError'', ''ResourceWarning'', ''RuntimeError'',
    ''RuntimeWarning'', ''StandardError'', ''StopAsyncIteration'', ''StopIteration'',
    ''SyntaxError'', ''SyntaxWarning'', ''SystemError'', ''SystemExit'', ''TabError'',
    ''TimeoutError'', ''True'', ''TypeError'', ''UnboundLocalError'',
    ''UnicodeDecodeError'', ''UnicodeEncodeError'', ''UnicodeError'',
    ''UnicodeTranslateError'', ''UnicodeWarning'', ''UserWarning'', ''ValueError'',
    ''Warning'', ''ZeroDivisionError'', ''__build_class__'', ''__debug__'', ''__doc__'',
    ''__import__'', ''__loader__'', ''__name__'', ''__package__'', ''__spec__'', ''abs'',
    ''aiter'', ''all'', ''anext'', ''any'', ''apply'', ''ascii'', ''basestring'', ''bin'',
    ''bool'', ''breakpoint'', ''buffer'', ''bytearray'', ''bytes'', ''callable'', ''chr'',
    ''classmethod'', ''cmp'', ''coerce'', ''compile'', ''complex'', ''copyright'',
    ''credits'', ''delattr'', ''dict'', ''dir'', ''divmod'', ''enumerate'', ''eval'',
    ''exec'', ''execfile'', ''exit'', ''file'', ''filter'', ''float'', ''format'',
    ''frozenset'', ''getattr'', ''globals'', ''hasattr'', ''hash'', ''help'', ''hex'',
    ''id'', ''input'', ''int'', ''intern'', ''isinstance'', ''issubclass'', ''iter'',
    ''len'', ''license'', ''list'', ''locals'', ''long'', ''map'', ''max'', ''memoryview'',
    ''min'', ''next'', ''object'', ''oct'', ''open'', ''ord'', ''pow'', ''print'',
    ''property'', ''quit'', ''range'', ''raw_input'', ''reduce'', ''reload'', ''repr'',
    ''reversed'', ''round'', ''set'', ''setattr'', ''slice'', ''sorted'', ''staticmethod'',
    ''str'', ''sum'', ''super'', ''tuple'', ''type'', ''unichr'', ''unicode'', ''vars'',
    ''xrange'', ''zip''
   ]"

text \<open>
  Reading a name inside a method body once the module is loaded: the local names of
  the call, then the module's globals (which by then include \<^verbatim>\<open>engines\<close>), then the
  builtins; a name bound in none of them raises \<^verbatim>\<open>NameError\<close>.
\<close>

definition load_name :: "(string \<times> pyobject) list \<Rightarrow> string \<Rightarrow> error + pyobject" where
  "load_name locals n =
     (case map_of locals n of
        Some v \<Rightarrow> Inr v
      | None \<Rightarrow>
          (case map_of (module_globals @ [(''engines'', Opaque)]) n of
             Some v \<Rightarrow> Inr v
           | None \<Rightarrow> if n \<in> set builtin_names then Inr Opaque else Inl (NameError n)))"

text \<open>
  \<^verbatim>\<open>str(o)\<close>, which \<^verbatim>\<open>'{}'.format(o)\<close> applies to its argument: a text is itself (here
  for ASCII texts, which a \<^typ>\<open>string\<close> can hold), a datetime prints as its ISO form
  with a space for the \<open>T\<close>.
\<close>

fun py_str :: "pyobject \<Rightarrow> error + string" where
  "py_str (Str s) = (if list_all (\<lambda>c. c < 128) s then Inr (map char_of s) else Inl NotModelled)"
| "py_str (Datetime d) = Inr (str_replace (isoformat d) ''T'' '' '')"
| "py_str other = Inl NotModelled"

section \<open>\<^verbatim>\<open>convert_dttm\<close>\<close>

text \<open>
  The seven class bodies that define \<^verbatim>\<open>convert_dttm(cls, target_type, dttm)\<close>.  The body
  in \<^verbatim>\<open>MssqlEngineSpec\<close> reads the name \<^verbatim>\<open>iso\<close>.
\<close>

fun convert_dttm_own :: "cls \<Rightarrow> (cls \<Rightarrow> unicode \<Rightarrow> datetime \<Rightarrow> error + string) option" where
  "convert_dttm_own BaseEngineSpec = Some (\<lambda>cls target_type dttm.
     format (CHR 0x27 # ''{}'' @ [CHR 0x27]) [strftime dttm ''%Y-%m-%d %H:%M:%S''] [])"
| "convert_dttm_own PostgresEngineSpec = Some (\<lambda>cls target_type dttm.
     format (CHR 0x27 # ''{}'' @ [CHR 0x27]) [strftime dttm ''%Y-%m-%d %H:%M:%S''] [])"
| "convert_dttm_own SqliteEngineSpec = Some (\<lambda>cls target_type dttm.
     let iso0 = str_replace (isoformat dttm) ''T'' '' '';
         iso1 = (if CHR ''.'' \<notin> set iso0 then iso0 @ ''.000000'' else iso0)
     in format (CHR 0x27 # ''{}'' @ [CHR 0x27]) [iso1] [])"
| "convert_dttm_own MySQLEngineSpec = Some (\<lambda>cls target_type dttm.
     if upper target_type \<in> set [codepoints ''DATETIME'', codepoints ''DATE'']
     then format ''STR_TO_DATE('{}', '%Y-%m-%d %H:%i:%s')''
            [strftime dttm ''%Y-%m-%d %H:%M:%S''] []
     else format (CHR 0x27 # ''{}'' @ [CHR 0x27]) [strftime dttm ''%Y-%m-%d %H:%M:%S''] [])"
| "convert_dttm_own PrestoEngineSpec = Some (\<lambda>cls target_type dttm.
     if upper target_type \<in> set [codepoints ''DATE'', codepoints ''DATETIME'']
     then format ''from_iso8601_date('{}')'' [isoformat dttm] []
     else format (CHR 0x27 # ''{}'' @ [CHR 0x27]) [strftime dttm ''%Y-%m-%d %H:%M:%S''] [])"
| "convert_dttm_own MssqlEngineSpec = Some (\<lambda>cls target_type dttm.
     case load_name
            [(''cls'', Class cls), (''target_type'', Str target_type), (''dttm'', Datetime dttm)]
            ''iso'' of
       Inl e \<Rightarrow> Inl e
     | Inr v \<Rightarrow>
         (case py_str v of
            Inl e \<Rightarrow> Inl e
          | Inr s \<Rightarrow> format ''CONVERT(DATETIME, '{}', 126)'' [s] []))"
| \<open>convert_dttm_own OracleEngineSpec = Some (\<lambda>cls target_type dttm.
     format ''TO_TIMESTAMP('{}', 'YYYY-MM-DD"T"HH24:MI:SS.ff6')'' [isoformat dttm] [])\<close>
| "convert_dttm_own RedshiftEngineSpec = None"
| "convert_dttm_own VerticaEngineSpec = None"

text \<open>The expression \<^verbatim>\<open>cls.convert_dttm(target_type, dttm)\<close>.\<close>

definition convert_dttm :: "cls \<Rightarrow> unicode \<Rightarrow> datetime \<Rightarrow> error + string" where
  "convert_dttm c target_type dttm =
     (case getattr convert_dttm_own ''convert_dttm'' c of
        Inl e \<Rightarrow> Inl e
      | Inr f \<Rightarrow> f c target_type dttm)"

section \<open>The registry\<close>

text \<open>
  \<^verbatim>\<open>engines = {o.engine: o for o in globals().values()
       if inspect.isclass(o) and issubclass(o, BaseEngineSpec)}\<close>:
  the global values that are classes with \<^verbatim>\<open>BaseEngineSpec\<close> in their resolution
  order, each stored under its \<^verbatim>\<open>engine\<close>; a later value replaces an earlier one under
  the same key.
\<close>

fun engine_spec_class :: "pyobject \<Rightarrow> cls option" where
  "engine_spec_class (Class c) = (if BaseEngineSpec \<in> set (mro c) then Some c else None)"
| "engine_spec_class other = None"

definition engines :: "string \<rightharpoonup> cls" where
  "engines =
     fold (\<lambda>ob m. m(engine ob \<mapsto> ob))
          (List.map_filter engine_spec_class (map snd module_globals)) Map.empty"

text \<open>
  Modelled from the spec: \<^verbatim>\<open>resolve(engine_id)\<close> of the EngineRegistry (section 4.2).
  The module only builds the dictionary \<open>engines\<close>; the lookup that its callers make is
  not part of it.  Following the spec, an identifier without an entry fails with
  \<open>UnknownEngineError\<close>, and one with an entry yields that entry.
\<close>

definition resolve :: "string \<Rightarrow> error + cls" where
  "resolve engine_id =
     (case engines engine_id of
        None \<Rightarrow> Inl UnknownEngineError
      | Some spec \<Rightarrow> Inr spec)"

section \<open>Using a template\<close>

text \<open>
  A template is used by \<^verbatim>\<open>template.format(col=expr)\<close>; a grain is chosen from a class's
  \<^verbatim>\<open>time_grains\<close> by its name.
\<close>

definition substitute :: "string \<Rightarrow> string \<Rightarrow> error + string" where
  "substitute template col = format template [] [(''col'', col)]"

definition grains_named :: "cls \<Rightarrow> string \<Rightarrow> Grain list" where
  "grains_named c n =
     (case time_grains c of
        Inl e \<Rightarrow> []
      | Inr gs \<Rightarrow> filter (\<lambda>g. name g = n) gs)"

definition grain_sql :: "cls \<Rightarrow> string \<Rightarrow> string \<Rightarrow> (error + string) list" where
  "grain_sql c n col = map (\<lambda>g. substitute (function' g) col) (grains_named c n)"

section \<open>What the spec says of a literal\<close>

text \<open>
  The spec's \<open>'YYYY-MM-DD HH:MM:SS'\<close>, read on the text itself and not through the
  functions that print it: a text of 19 characters with four, two, two, two, two and two
  decimal digits between the separators \<open>-\<close>, \<open>-\<close>, space, \<open>:\<close> and \<open>:\<close>, whose six
  numbers are the year, month, day, hour, minute and second of the datetime.  \<open>quoted\<close>
  puts a text between single quotes.
\<close>

definition digit_value :: "char \<Rightarrow> nat option" where
  "digit_value c =
     (let n = (of_char c :: nat) in if 48 \<le> n \<and> n \<le> 57 then Some (n - 48) else None)"

fun number_from :: "nat \<Rightarrow> string \<Rightarrow> nat option" where
  "number_from acc [] = Some acc"
| "number_from acc (c # cs) =
     (case digit_value c of
        None \<Rightarrow> None
      | Some v \<Rightarrow> number_from (10 * acc + v) cs)"

definition number :: "string \<Rightarrow> nat option" where
  "number s = (if s = [] then None else number_from 0 s)"

definition is_timestamp :: "datetime \<Rightarrow> string \<Rightarrow> bool" where
  "is_timestamp d s =
     (length s = 19 \<and>
      number (take 4 s) = Some (year d) \<and> s ! 4 = CHR ''-'' \<and>
      number (take 2 (drop 5 s)) = Some (month d) \<and> s ! 7 = CHR ''-'' \<and>
      number (take 2 (drop 8 s)) = Some (day d) \<and> s ! 10 = CHR '' '' \<and>
      number (take 2 (drop 11 s)) = Some (hour d) \<and> s ! 13 = CHR '':'' \<and>
      number (take 2 (drop 14 s)) = Some (minute d) \<and> s ! 16 = CHR '':'' \<and>
      number (take 2 (drop 17 s)) = Some (second d))"

definition quoted :: "string \<Rightarrow> string" where
  "quoted s = CHR 0x27 # s @ [CHR 0x27]"

text \<open>
  Two texts that differ at most in the case of their ASCII letters: the same length,
  and position by position the same code point once \<open>A\<close> to \<open>Z\<close> are moved onto \<open>a\<close> to
  \<open>z\<close>.
\<close>

definition ascii_fold :: "nat \<Rightarrow> nat" where
  "ascii_fold c = (if 65 \<le> c \<and> c \<le> 90 then c + 32 else c)"

definition same_ignoring_case :: "unicode \<Rightarrow> unicode \<Rightarrow> bool" where
  "same_ignoring_case a b = list_all2 (\<lambda>x y. ascii_fold x = ascii_fold y) a b"

section \<open>Evaluating the class table\<close>

lemma mro_values:
  "mro BaseEngineSpec = [BaseEngineSpec]"
  "mro PostgresEngineSpec = [PostgresEngineSpec, BaseEngineSpec]"
  "mro SqliteEngineSpec = [SqliteEngineSpec, BaseEngineSpec]"
  "mro MySQLEngineSpec = [MySQLEngineSpec, BaseEngineSpec]"
  "mro PrestoEngineSpec = [PrestoEngineSpec, BaseEngineSpec]"
  "mro MssqlEngineSpec = [MssqlEngineSpec, BaseEngineSpec]"
  "mro RedshiftEngineSpec = [RedshiftEngineSpec, PostgresEngineSpec, BaseEngineSpec]"
  "mro OracleEngineSpec = [OracleEngineSpec, PostgresEngineSpec, BaseEngineSpec]"
  "mro VerticaEngineSpec = [VerticaEngineSpec, PostgresEngineSpec, BaseEngineSpec]"
  by (simp_all add: mro.simps)

lemma getattr_inherited:
  "base_class c = Some b \<Longrightarrow> own c = None \<Longrightarrow> getattr own a c = getattr own a b"
  by (simp add: getattr_def mro.simps [of c])

lemma epoch_to_dttm_values:
  "epoch_to_dttm BaseEngineSpec = Inl NotImplementedError"
  "epoch_to_dttm PostgresEngineSpec = Inr ''(timestamp 'epoch' + {col} * interval '1 second')''"
  "epoch_to_dttm SqliteEngineSpec = Inr ''datetime({col}, 'unixepoch')''"
  "epoch_to_dttm MySQLEngineSpec = Inr ''from_unixtime({col})''"
  "epoch_to_dttm PrestoEngineSpec = Inr ''from_unixtime({col})''"
  "epoch_to_dttm MssqlEngineSpec = Inl TypeError"
  "epoch_to_dttm RedshiftEngineSpec = Inr ''(timestamp 'epoch' + {col} * interval '1 second')''"
  "epoch_to_dttm OracleEngineSpec = Inr ''(timestamp 'epoch' + {col} * interval '1 second')''"
  "epoch_to_dttm VerticaEngineSpec = Inr ''(timestamp 'epoch' + {col} * interval '1 second')''"
  by (simp_all add: epoch_to_dttm_def getattr_def mro_values)

lemma epoch_ms_to_dttm_unfold:
  "epoch_ms_to_dttm c =
     (case epoch_to_dttm c of
        Inl e \<Rightarrow> Inl e
      | Inr s \<Rightarrow> Inr (str_replace s ''{col}'' ''({col}/1000.0)''))"
  by (cases c) (simp_all add: epoch_ms_to_dttm_def getattr_def mro_values)

lemma engines_lookup:
  "engines x =
     (if x = ''vertica'' then Some VerticaEngineSpec
      else if x = ''oracle'' then Some OracleEngineSpec
      else if x = ''redshift'' then Some RedshiftEngineSpec
      else if x = ''mssql'' then Some MssqlEngineSpec
      else if x = ''presto'' then Some PrestoEngineSpec
      else if x = ''mysql'' then Some MySQLEngineSpec
      else if x = ''sqlite'' then Some SqliteEngineSpec
      else if x = ''postgres'' then Some PostgresEngineSpec
      else if x = ''base'' then Some BaseEngineSpec
      else None)"
  by (simp add: engines_def module_globals_def mro_values)

lemma dom_engines:
  "dom engines =
     {''base'', ''postgres'', ''sqlite'', ''mysql'', ''presto'', ''mssql'', ''redshift'',
      ''oracle'', ''vertica''}"
  by (auto simp: dom_def engines_lookup split: if_splits)

text \<open>
  The order in which \<^verbatim>\<open>globals().values()\<close> yields the objects is not fixed by every
  version of Python.  The dictionary does not depend on it, since no two classes have
  the same \<^verbatim>\<open>engine\<close>.
\<close>

lemma engine_inj: "engine a = engine b \<Longrightarrow> a = b"
  by (cases a; cases b; simp)

lemma the_engine: "(THE c. engine c = engine a) = a"
  by (rule the_equality) (auto dest: engine_inj)

lemma fold_registry_lookup:
  "fold (\<lambda>ob m. m(engine ob \<mapsto> ob)) cs m x =
     (if \<exists>c \<in> set cs. engine c = x then Some (THE c. engine c = x) else m x)"
proof (induction cs arbitrary: m)
  case Nil
  then show ?case by simp
next
  case (Cons a cs)
  have "fold (\<lambda>ob m. m(engine ob \<mapsto> ob)) (a # cs) m x =
        fold (\<lambda>ob m. m(engine ob \<mapsto> ob)) cs (m(engine a \<mapsto> a)) x"
    by simp
  also have "\<dots> = (if \<exists>c \<in> set cs. engine c = x then Some (THE c. engine c = x)
                    else (m(engine a \<mapsto> a)) x)"
    by (rule Cons.IH)
  also have "\<dots> = (if \<exists>c \<in> set (a # cs). engine c = x then Some (THE c. engine c = x)
                    else m x)"
    using the_engine [of a] by auto
  finally show ?case .
qed

lemma set_map_filter: "set (List.map_filter f xs) = {y. \<exists>x \<in> set xs. f x = Some y}"
  by (induction xs) (auto split: option.splits)

lemma engines_order_irrelevant:
  assumes "set objs = set (map snd module_globals)"
  shows "fold (\<lambda>ob m. m(engine ob \<mapsto> ob)) (List.map_filter engine_spec_class objs) Map.empty
           = engines"
proof -
  have "set (List.map_filter engine_spec_class objs) =
        set (List.map_filter engine_spec_class (map snd module_globals))"
    using assms by (simp only: set_map_filter)
  then show ?thesis
    unfolding engines_def by (intro ext) (simp only: fold_registry_lookup)
qed

section \<open>Formatting a datetime\<close>

lemma strftime_timestamp:
  "strftime d ''%Y-%m-%d %H:%M:%S'' =
     decimal (year d) @ ''-'' @ zero_padded 2 (month d) @ ''-'' @ zero_padded 2 (day d)
     @ '' '' @ zero_padded 2 (hour d) @ '':'' @ zero_padded 2 (minute d) @ '':''
     @ zero_padded 2 (second d)"
  by (simp add: directive_def)

lemma digit_value_digit: "k < 10 \<Longrightarrow> digit_value (''0123456789'' ! k) = Some k"
proof -
  assume "k < 10"
  then have "k = 0 \<or> k = 1 \<or> k = 2 \<or> k = 3 \<or> k = 4 \<or> k = 5 \<or> k = 6 \<or> k = 7 \<or> k = 8 \<or> k = 9"
    by arith
  then show ?thesis
    by (elim disjE) (simp_all add: digit_value_def)
qed

lemma number_from_append:
  "number_from acc (xs @ ys) =
     (case number_from acc xs of None \<Rightarrow> None | Some a \<Rightarrow> number_from a ys)"
  by (induction xs arbitrary: acc) (auto split: option.splits)

lemma decimal_nonempty: "decimal n \<noteq> []"
  by (subst decimal.simps) simp

lemma number_from_decimal:
  "number_from acc (decimal n) = Some (acc * 10 ^ length (decimal n) + n)"
proof (induction n arbitrary: acc rule: decimal.induct)
  case (1 n)
  show ?case
  proof (cases "n < 10")
    case True
    then show ?thesis
      by (subst (1 2) decimal.simps) (simp add: digit_value_digit)
  next
    case False
    then have ih: "number_from acc (decimal (n div 10)) =
                     Some (acc * 10 ^ length (decimal (n div 10)) + n div 10)"
      using "1.IH" by simp
    have d: "decimal n = decimal (n div 10) @ [''0123456789'' ! (n mod 10)]"
      using False by (subst decimal.simps) simp
    show ?thesis
      unfolding d by (simp add: number_from_append ih digit_value_digit algebra_simps)
  qed
qed

lemma number_decimal: "number (decimal n) = Some n"
  by (simp add: number_def decimal_nonempty number_from_decimal)

lemma number_from_zeros: "number_from 0 (replicate k (CHR ''0'')) = Some 0"
  by (induction k) (simp_all add: digit_value_def)

lemma number_zero_padded: "number (zero_padded w n) = Some n"
  by (simp add: number_def zero_padded_def decimal_nonempty number_from_append
      number_from_zeros number_from_decimal)

lemma decimal_length_1: "n < 10 \<Longrightarrow> length (decimal n) = 1"
  by (simp add: decimal.simps)

lemma decimal_length_step: "10 \<le> n \<Longrightarrow> length (decimal n) = Suc (length (decimal (n div 10)))"
  by (subst decimal.simps) simp

lemma decimal_length_2: "n < 100 \<Longrightarrow> length (decimal n) \<le> 2"
  by (cases "n < 10") (simp_all add: decimal_length_1 decimal_length_step)

lemma decimal_length_4:
  assumes "1000 \<le> n" "n < 10000"
  shows "length (decimal n) = 4"
proof -
  have "length (decimal (n div 10 div 10 div 10)) = 1"
    using assms by (intro decimal_length_1) simp
  then have "length (decimal (n div 10 div 10)) = 2"
    using assms by (subst decimal_length_step) simp_all
  then have "length (decimal (n div 10)) = 3"
    using assms by (subst decimal_length_step) simp_all
  then show ?thesis
    using assms by (subst decimal_length_step) simp_all
qed

lemma zero_padded_length: "length (decimal n) \<le> w \<Longrightarrow> length (zero_padded w n) = w"
  by (simp add: zero_padded_def)

lemma days_in_month_le: "days_in_month y m \<le> 31"
  by (simp add: days_in_month_def)

lemma is_timestamp_fields:
  assumes "length Y = 4" "length M = 2" "length D = 2" "length H = 2" "length Mi = 2"
    "length S = 2"
    and "number Y = Some (year d)" "number M = Some (month d)" "number D = Some (day d)"
    "number H = Some (hour d)" "number Mi = Some (minute d)" "number S = Some (second d)"
  shows "is_timestamp d (Y @ ''-'' @ M @ ''-'' @ D @ '' '' @ H @ '':'' @ Mi @ '':'' @ S)"
  using assms by (simp add: is_timestamp_def nth_append)

lemma strftime_is_timestamp:
  assumes "valid_datetime d" "1000 \<le> year d"
  shows "is_timestamp d (strftime d ''%Y-%m-%d %H:%M:%S'')"
proof -
  have y: "length (decimal (year d)) = 4"
    using assms by (intro decimal_length_4) (simp_all add: valid_datetime_def)
  have m: "length (zero_padded 2 (month d)) = 2"
    using assms by (intro zero_padded_length decimal_length_2) (simp add: valid_datetime_def)
  have "day d \<le> 31"
    using assms days_in_month_le [of "year d" "month d"] by (simp add: valid_datetime_def)
  then have dd: "length (zero_padded 2 (day d)) = 2"
    by (intro zero_padded_length decimal_length_2) simp
  have h: "length (zero_padded 2 (hour d)) = 2"
    using assms by (intro zero_padded_length decimal_length_2) (simp add: valid_datetime_def)
  have mi: "length (zero_padded 2 (minute d)) = 2"
    using assms by (intro zero_padded_length decimal_length_2) (simp add: valid_datetime_def)
  have s: "length (zero_padded 2 (second d)) = 2"
    using assms by (intro zero_padded_length decimal_length_2) (simp add: valid_datetime_def)
  show ?thesis
    unfolding strftime_timestamp
    by (rule is_timestamp_fields) (simp_all only: y m dd h mi s number_decimal number_zero_padded)
qed

section \<open>Upper case and the datetime literals\<close>

lemma upper_char_ascii:
  "c < 128 \<Longrightarrow> upper_char c = [if 97 \<le> c \<and> c \<le> 122 then c - 32 else c]"
  by (simp add: upper_char_def)

lemma upper_of_same_ignoring_case:
  assumes "same_ignoring_case p s" "list_all (\<lambda>x. 65 \<le> x \<and> x \<le> 90) p"
  shows "upper s = p"
  using assms unfolding same_ignoring_case_def
proof (induction p s rule: list_all2_induct)
  case Nil
  then show ?case by (simp add: upper_def)
next
  case (Cons x xs y ys)
  from Cons.prems have x: "65 \<le> x" "x \<le> 90" and rest: "list_all (\<lambda>x. 65 \<le> x \<and> x \<le> 90) xs"
    by simp_all
  from Cons.hyps(1) x have "y = x \<or> y = x + 32"
    by (auto simp: ascii_fold_def split: if_splits)
  then have "upper_char y = [x]"
    using x by (auto simp: upper_char_def)
  moreover have "upper ys = xs"
    using Cons.IH rest by simp
  ultimately show ?case
    by (simp add: upper_def)
qed

lemma same_ignoring_case_of_upper:
  assumes "list_all (\<lambda>c. c < 128) s" "upper s = p" "list_all (\<lambda>x. 65 \<le> x \<and> x \<le> 90) p"
  shows "same_ignoring_case p s"
  using assms
proof (induction s arbitrary: p)
  case Nil
  then show ?case by (simp add: upper_def same_ignoring_case_def)
next
  case (Cons c cs)
  from Cons.prems(1) have c: "c < 128" and cs: "list_all (\<lambda>c. c < 128) cs"
    by simp_all
  let ?u = "if 97 \<le> c \<and> c \<le> 122 then c - 32 else c"
  from Cons.prems(2) c have p: "p = ?u # upper cs"
    by (simp add: upper_def upper_char_ascii)
  with Cons.prems(3) have u: "65 \<le> ?u" "?u \<le> 90" and rest: "list_all (\<lambda>x. 65 \<le> x \<and> x \<le> 90) (upper cs)"
    by simp_all
  have "same_ignoring_case (upper cs) cs"
    using Cons.IH [OF cs refl rest] .
  moreover have "ascii_fold ?u = ascii_fold c"
    using u by (auto simp: ascii_fold_def split: if_splits)
  ultimately show ?case
    unfolding p same_ignoring_case_def by simp
qed

lemma codepoints_values:
  "codepoints ''DATE'' = [68, 65, 84, 69]"
  "codepoints ''DATETIME'' = [68, 65, 84, 69, 84, 73, 77, 69]"
  "codepoints ''date'' = [100, 97, 116, 101]"
  "codepoints ''datetime'' = [100, 97, 116, 101, 116, 105, 109, 101]"
  "codepoints ''VARCHAR'' = [86, 65, 82, 67, 72, 65, 82]"
  "codepoints ''TIMESTAMP'' = [84, 73, 77, 69, 83, 84, 65, 77, 80]"
  by (simp_all add: codepoints_def)

lemma upper_dotless_i: "upper_char 305 = [73]"
  by (simp add: upper_char_def upper_special_def upper_ranges_def)

lemma convert_dttm_base:
  "convert_dttm BaseEngineSpec target_type d =
     Inr (quoted (strftime d ''%Y-%m-%d %H:%M:%S''))"
  by (simp add: convert_dttm_def getattr_def mro_values format_def field_value_def
      directive_def quoted_def)

lemma convert_dttm_postgres:
  "convert_dttm PostgresEngineSpec target_type d =
     Inr (quoted (strftime d ''%Y-%m-%d %H:%M:%S''))"
  by (simp add: convert_dttm_def getattr_def mro_values format_def field_value_def
      directive_def quoted_def)

lemma convert_dttm_mysql:
  "convert_dttm MySQLEngineSpec target_type d =
     (if upper target_type = codepoints ''DATETIME'' \<or> upper target_type = codepoints ''DATE''
      then Inr (''STR_TO_DATE('' @ quoted (strftime d ''%Y-%m-%d %H:%M:%S'')
                @ '', '%Y-%m-%d %H:%i:%s')'')
      else Inr (quoted (strftime d ''%Y-%m-%d %H:%M:%S'')))"
  by (simp add: convert_dttm_def getattr_def mro_values format_def field_value_def
      directive_def quoted_def)

lemma strftime_example:
  "strftime \<lparr>year = 2021, month = 1, day = 15, hour = 0, minute = 0, second = 0, microsecond = 0\<rparr>
     ''%Y-%m-%d %H:%M:%S'' = ''2021-01-15 00:00:00''"
  by (simp add: directive_def zero_padded_def decimal.simps)

lemma strftime_year_99:
  "strftime \<lparr>year = 99, month = 1, day = 1, hour = 0, minute = 0, second = 0, microsecond = 0\<rparr>
     ''%Y-%m-%d %H:%M:%S'' = ''99-01-01 00:00:00''"
  by (simp add: directive_def zero_padded_def decimal.simps)

lemma upper_values:
  "upper (codepoints ''DATE'') = codepoints ''DATE''"
  "upper (codepoints ''datetime'') = codepoints ''DATETIME''"
  "upper (codepoints ''VARCHAR'') = codepoints ''VARCHAR''"
  "upper [100, 97, 116, 101, 116, 305, 109, 101] = codepoints ''DATETIME''"
  by (simp_all add: upper_def upper_char_ascii upper_dotless_i codepoints_values)

lemma convert_dttm_oracle:
  \<open>convert_dttm OracleEngineSpec target_type d =
     Inr (''TO_TIMESTAMP('' @ [CHR 0x27] @ isoformat d @ [CHR 0x27]
          @ '', 'YYYY-MM-DD"T"HH24:MI:SS.ff6')'')\<close>
  by (simp add: convert_dttm_def getattr_def mro_values format_def field_value_def)

lemma grain_sql_postgres_week:
  "grain_sql PostgresEngineSpec ''week'' ''ts'' = [Inr ''DATE_TRUNC('week', ts)'']"
  by (simp add: grain_sql_def grains_named_def time_grains_def getattr_def mro_values
      substitute_def format_def field_value_def)

section \<open>The millisecond template\<close>

text \<open>
  Claim C1, as the code has it.  For every class except \<^verbatim>\<open>MssqlEngineSpec\<close>:
  if the class is not \<^verbatim>\<open>BaseEngineSpec\<close>, then \<^verbatim>\<open>epoch_to_dttm()\<close> returns a template \<open>t\<close>,
  \<^verbatim>\<open>epoch_ms_to_dttm()\<close> returns \<open>t\<close> with every \<open>{col}\<close> replaced by \<open>({col}/1000.0)\<close>,
  and substituting a column expression into the millisecond template gives the same
  string as substituting the expression divided by 1000.0, in parentheses, into the
  seconds template; for \<^verbatim>\<open>BaseEngineSpec\<close>, \<^verbatim>\<open>epoch_ms_to_dttm()\<close> raises
  \<^verbatim>\<open>NotImplementedError\<close>.
\<close>

theorem epoch_ms_to_dttm_wraps_seconds_template:
  assumes "c \<noteq> MssqlEngineSpec"
  shows "(c \<noteq> BaseEngineSpec \<longrightarrow>
           (\<exists>t. epoch_to_dttm c = Inr t \<and>
                epoch_ms_to_dttm c = Inr (str_replace t ''{col}'' ''({col}/1000.0)'') \<and>
                substitute (str_replace t ''{col}'' ''({col}/1000.0)'') col =
                  substitute t (''('' @ col @ ''/1000.0)''))) \<and>
         (c = BaseEngineSpec \<longrightarrow> epoch_ms_to_dttm c = Inl NotImplementedError)"
  using assms
  by (cases c)
     (simp_all add: epoch_ms_to_dttm_unfold epoch_to_dttm_values substitute_def format_def
        field_value_def str_replace.simps)

text \<open>
  The theorem at \<^verbatim>\<open>PostgresEngineSpec\<close> with the column \<open>ts\<close>, and at
  \<^verbatim>\<open>BaseEngineSpec\<close>.
\<close>

theorem epoch_ms_to_dttm_wraps_seconds_template_witness:
  "PostgresEngineSpec \<noteq> MssqlEngineSpec \<and> BaseEngineSpec \<noteq> MssqlEngineSpec \<and>
   epoch_ms_to_dttm PostgresEngineSpec =
     Inr ''(timestamp 'epoch' + ({col}/1000.0) * interval '1 second')'' \<and>
   substitute ''(timestamp 'epoch' + ({col}/1000.0) * interval '1 second')'' ''ts'' =
     substitute ''(timestamp 'epoch' + {col} * interval '1 second')'' ''(ts/1000.0)'' \<and>
   epoch_ms_to_dttm BaseEngineSpec = Inl NotImplementedError"
proof -
  have p: "PostgresEngineSpec \<noteq> MssqlEngineSpec" and b: "BaseEngineSpec \<noteq> MssqlEngineSpec"
    by simp_all
  have r: "str_replace ''(timestamp 'epoch' + {col} * interval '1 second')'' ''{col}''
             ''({col}/1000.0)'' = ''(timestamp 'epoch' + ({col}/1000.0) * interval '1 second')''"
    by (simp add: str_replace.simps)
  show ?thesis
    using epoch_ms_to_dttm_wraps_seconds_template [OF p, of "''ts''"]
      epoch_ms_to_dttm_wraps_seconds_template [OF b] r
    by (simp add: epoch_to_dttm_values)
qed

text \<open>
  Claim C1 as it is stated fails at two registered engines: under \<open>base\<close> the registry
  holds \<^verbatim>\<open>BaseEngineSpec\<close>, whose \<^verbatim>\<open>epoch_ms_to_dttm()\<close> raises \<^verbatim>\<open>NotImplementedError\<close>,
  and under \<open>mssql\<close> it holds \<^verbatim>\<open>MssqlEngineSpec\<close>, whose \<^verbatim>\<open>epoch_to_dttm\<close> is a string
  and not a method, so that \<^verbatim>\<open>epoch_ms_to_dttm()\<close> raises \<^verbatim>\<open>TypeError\<close>.
\<close>

theorem epoch_ms_to_dttm_raises_for_base_and_mssql:
  "engines ''base'' = Some BaseEngineSpec \<and>
   epoch_ms_to_dttm BaseEngineSpec = Inl NotImplementedError \<and>
   engines ''mssql'' = Some MssqlEngineSpec \<and>
   epoch_ms_to_dttm MssqlEngineSpec = Inl TypeError"
  by (simp add: engines_lookup epoch_ms_to_dttm_unfold epoch_to_dttm_values)

section \<open>The unbound name in \<^verbatim>\<open>MssqlEngineSpec.convert_dttm\<close>\<close>

text \<open>
  Claim C2.  For every target type and every datetime,
  \<^verbatim>\<open>MssqlEngineSpec.convert_dttm\<close> returns no literal: reading \<^verbatim>\<open>iso\<close>, which is neither
  a parameter, nor a global of the module, nor a builtin, raises \<^verbatim>\<open>NameError\<close>.
\<close>

theorem mssql_convert_dttm_raises_name_error:
  "convert_dttm MssqlEngineSpec target_type dttm = Inl (NameError ''iso'')"
  by (simp add: convert_dttm_def getattr_def mro_values load_name_def module_globals_def
      builtin_names_def)

section \<open>Resolving an engine identifier\<close>

text \<open>
  Claim C3.  An identifier that is not a key of \<open>engines\<close> does not resolve: the result
  is \<open>UnknownEngineError\<close>, and so it is neither the base spec nor any other.
\<close>

theorem resolve_unregistered_fails:
  "engine_id \<notin> dom engines \<Longrightarrow>
     resolve engine_id = Inl UnknownEngineError \<and> resolve engine_id \<noteq> Inr BaseEngineSpec"
  by (auto simp: resolve_def split: option.splits)

text \<open>The theorem at the identifier \<open>not_a_real_engine\<close>.\<close>

theorem resolve_unregistered_fails_witness:
  "''not_a_real_engine'' \<notin> dom engines \<and>
   resolve ''not_a_real_engine'' = Inl UnknownEngineError"
proof -
  have h: "''not_a_real_engine'' \<notin> dom engines"
    by (simp add: dom_engines)
  show ?thesis
    using h resolve_unregistered_fails [OF h] by simp
qed

section \<open>Inheritance\<close>

text \<open>
  Claim C4.  Let \<open>c\<close> be a class with base \<open>b\<close>.  If the body of \<open>c\<close> does not bind
  \<^verbatim>\<open>time_grains\<close>, then \<open>c\<close> has the grain tuple of \<open>b\<close>, and every grain name and column
  expression give the same SQL strings on \<open>c\<close> as on \<open>b\<close>; if it does not bind
  \<^verbatim>\<open>epoch_to_dttm\<close>, then \<^verbatim>\<open>epoch_to_dttm()\<close> gives the result of \<open>b\<close>; if it does not
  bind \<^verbatim>\<open>convert_dttm\<close>, then \<^verbatim>\<open>convert_dttm(target_type, dttm)\<close> gives the result of
  \<open>b\<close>.  All three hold for \<^verbatim>\<open>RedshiftEngineSpec\<close> and \<^verbatim>\<open>VerticaEngineSpec\<close> over
  \<^verbatim>\<open>PostgresEngineSpec\<close>, the first two for \<^verbatim>\<open>OracleEngineSpec\<close>, whose own
  \<^verbatim>\<open>convert_dttm\<close> returns a \<open>TO_TIMESTAMP\<close> call instead.
\<close>

theorem inherited_operations_equal_base:
  assumes "base_class c = Some b"
  shows "(time_grains_own c = None \<longrightarrow>
            time_grains c = time_grains b \<and> grain_sql c n col = grain_sql b n col) \<and>
         (epoch_to_dttm_own c = None \<longrightarrow> epoch_to_dttm c = epoch_to_dttm b) \<and>
         (convert_dttm_own c = None \<longrightarrow>
            convert_dttm c target_type dttm = convert_dttm b target_type dttm) \<and>
         base_class RedshiftEngineSpec = Some PostgresEngineSpec \<and>
         base_class VerticaEngineSpec = Some PostgresEngineSpec \<and>
         base_class OracleEngineSpec = Some PostgresEngineSpec \<and>
         map time_grains_own [RedshiftEngineSpec, VerticaEngineSpec, OracleEngineSpec] =
           [None, None, None] \<and>
         map epoch_to_dttm_own [RedshiftEngineSpec, VerticaEngineSpec, OracleEngineSpec] =
           [None, None, None] \<and>
         convert_dttm_own RedshiftEngineSpec = None \<and>
         convert_dttm_own VerticaEngineSpec = None \<and>
         convert_dttm_own OracleEngineSpec \<noteq> None"
proof (intro conjI impI)
  assume own: "time_grains_own c = None"
  show tg: "time_grains c = time_grains b"
    unfolding time_grains_def using assms own by (rule getattr_inherited)
  show "grain_sql c n col = grain_sql b n col"
    by (simp add: grain_sql_def grains_named_def tg)
next
  assume "epoch_to_dttm_own c = None"
  with assms show "epoch_to_dttm c = epoch_to_dttm b"
    by (cases c) (simp_all add: epoch_to_dttm_values)
next
  assume "convert_dttm_own c = None"
  with assms show "convert_dttm c target_type dttm = convert_dttm b target_type dttm"
    by (cases c) (simp_all add: convert_dttm_def getattr_def mro_values)
qed simp_all

text \<open>
  The theorem at \<^verbatim>\<open>RedshiftEngineSpec\<close> over \<^verbatim>\<open>PostgresEngineSpec\<close>, with the grain
  \<open>week\<close>, the column \<open>ts\<close>, the target type \<open>DATE\<close> and 2021-01-15 00:00:00.
\<close>

theorem inherited_operations_equal_base_witness:
  "base_class RedshiftEngineSpec = Some PostgresEngineSpec \<and>
   time_grains_own RedshiftEngineSpec = None \<and>
   epoch_to_dttm_own RedshiftEngineSpec = None \<and>
   convert_dttm_own RedshiftEngineSpec = None \<and>
   grain_sql RedshiftEngineSpec ''week'' ''ts'' = [Inr ''DATE_TRUNC('week', ts)''] \<and>
   epoch_to_dttm RedshiftEngineSpec =
     Inr ''(timestamp 'epoch' + {col} * interval '1 second')'' \<and>
   convert_dttm RedshiftEngineSpec (codepoints ''DATE'')
       \<lparr>year = 2021, month = 1, day = 15, hour = 0, minute = 0, second = 0, microsecond = 0\<rparr> =
     Inr (CHR 0x27 # ''2021-01-15 00:00:00'' @ [CHR 0x27])"
proof -
  let ?d = "\<lparr>year = 2021, month = 1, day = 15, hour = 0, minute = 0, second = 0,
             microsecond = 0\<rparr>"
  have b: "base_class RedshiftEngineSpec = Some PostgresEngineSpec"
    by simp
  have q: "quoted (strftime ?d ''%Y-%m-%d %H:%M:%S'') =
             CHR 0x27 # ''2021-01-15 00:00:00'' @ [CHR 0x27]"
    by (simp only: strftime_example quoted_def)
  show ?thesis
    using inherited_operations_equal_base
        [OF b, of "''week''" "''ts''" "codepoints ''DATE''" ?d] q
    by (simp add: grain_sql_postgres_week epoch_to_dttm_values convert_dttm_postgres)
qed

section \<open>Grain catalogs\<close>

text \<open>
  Claim C5.  In the grain tuple of \<^verbatim>\<open>SqliteEngineSpec\<close> exactly one grain is named
  \<open>week\<close>, and substituting the column expression \<open>ts\<close> into its template gives
  \<open>DATE(ts, -strftime('%w', ts) || ' days')\<close>.
\<close>

theorem sqlite_week_fragment:
  "grain_sql SqliteEngineSpec ''week'' ''ts'' =
     [Inr ''DATE(ts, -strftime('%w', ts) || ' days')'']"
  by (simp add: grain_sql_def grains_named_def time_grains_def getattr_def mro_values
      substitute_def format_def field_value_def)

text \<open>
  Claim C8.  For every class of the module, \<^verbatim>\<open>time_grains\<close> resolves to a tuple in which
  no two grains have the same name.
\<close>

theorem time_grains_names_distinct:
  "\<exists>gs. time_grains c = Inr gs \<and> distinct (map name gs)"
  by (cases c) (simp_all add: time_grains_def getattr_def mro_values)

section \<open>Datetime literals\<close>

text \<open>
  Claim C6.  \<^verbatim>\<open>MySQLEngineSpec.convert_dttm\<close> returns the \<open>STR_TO_DATE\<close> call around the
  quoted \<^verbatim>\<open>strftime\<close> text for every target type that is \<open>DATE\<close> or \<open>DATETIME\<close> up to
  the case of its letters, and more generally for every target type whose
  \<^verbatim>\<open>upper()\<close> is one of the two; for every other target type, and so for every ASCII
  target type that is neither word up to case, it returns the quoted text alone.  For a
  datetime from the year 1000 on the text is the spec's \<open>YYYY-MM-DD HH:MM:SS\<close>, and for
  the target type \<open>DATE\<close> and 2021-01-15 00:00:00 the result is
  \<open>STR_TO_DATE('2021-01-15 00:00:00', '%Y-%m-%d %H:%i:%s')\<close>.
\<close>

theorem mysql_convert_dttm_str_to_date:
  "(same_ignoring_case (codepoints ''DATE'') target_type \<or>
    same_ignoring_case (codepoints ''DATETIME'') target_type \<longrightarrow>
      convert_dttm MySQLEngineSpec target_type d =
        Inr (''STR_TO_DATE('' @ quoted (strftime d ''%Y-%m-%d %H:%M:%S'')
             @ '', '%Y-%m-%d %H:%i:%s')'')) \<and>
   (upper target_type = codepoints ''DATE'' \<or> upper target_type = codepoints ''DATETIME'' \<longrightarrow>
      convert_dttm MySQLEngineSpec target_type d =
        Inr (''STR_TO_DATE('' @ quoted (strftime d ''%Y-%m-%d %H:%M:%S'')
             @ '', '%Y-%m-%d %H:%i:%s')'')) \<and>
   (upper target_type \<noteq> codepoints ''DATE'' \<and> upper target_type \<noteq> codepoints ''DATETIME'' \<longrightarrow>
      convert_dttm MySQLEngineSpec target_type d =
        Inr (quoted (strftime d ''%Y-%m-%d %H:%M:%S''))) \<and>
   (list_all (\<lambda>c. c < 128) target_type \<and>
    \<not> same_ignoring_case (codepoints ''DATE'') target_type \<and>
    \<not> same_ignoring_case (codepoints ''DATETIME'') target_type \<longrightarrow>
      convert_dttm MySQLEngineSpec target_type d =
        Inr (quoted (strftime d ''%Y-%m-%d %H:%M:%S''))) \<and>
   (valid_datetime d \<and> 1000 \<le> year d \<longrightarrow>
      is_timestamp d (strftime d ''%Y-%m-%d %H:%M:%S'')) \<and>
   convert_dttm MySQLEngineSpec (codepoints ''DATE'')
       \<lparr>year = 2021, month = 1, day = 15, hour = 0, minute = 0, second = 0, microsecond = 0\<rparr> =
     Inr ''STR_TO_DATE('2021-01-15 00:00:00', '%Y-%m-%d %H:%i:%s')''"
proof -
  let ?date = "codepoints ''DATE''" and ?datetime = "codepoints ''DATETIME''"
  have up: "list_all (\<lambda>x. 65 \<le> x \<and> x \<le> 90) ?date"
    "list_all (\<lambda>x. 65 \<le> x \<and> x \<le> 90) ?datetime"
    by (simp_all add: codepoints_values)
  have match: "upper target_type = ?date \<or> upper target_type = ?datetime"
    if "same_ignoring_case ?date target_type \<or> same_ignoring_case ?datetime target_type"
    using that up upper_of_same_ignoring_case by blast
  have no_match: "upper target_type \<noteq> ?date \<and> upper target_type \<noteq> ?datetime"
    if "list_all (\<lambda>c. c < 128) target_type"
      and "\<not> same_ignoring_case ?date target_type"
      and "\<not> same_ignoring_case ?datetime target_type"
    using that up same_ignoring_case_of_upper by blast
  have example: "convert_dttm MySQLEngineSpec ?date
       \<lparr>year = 2021, month = 1, day = 15, hour = 0, minute = 0, second = 0, microsecond = 0\<rparr> =
     Inr ''STR_TO_DATE('2021-01-15 00:00:00', '%Y-%m-%d %H:%i:%s')''"
    unfolding convert_dttm_mysql upper_values strftime_example quoted_def by simp
  show ?thesis
    using match no_match example strftime_is_timestamp [of d]
    by (auto simp add: convert_dttm_mysql)
qed

text \<open>
  The theorem at 2021-01-15 00:00:00 with three target types: \<open>datetime\<close> in lower
  case; the same word with the dotless i (code point 305, whose upper case is \<open>I\<close>) in
  the place of the \<open>i\<close>; and \<open>VARCHAR\<close>.
\<close>

theorem mysql_convert_dttm_str_to_date_witness:
  "same_ignoring_case (codepoints ''DATETIME'') (codepoints ''datetime'') \<and>
   convert_dttm MySQLEngineSpec (codepoints ''datetime'')
       \<lparr>year = 2021, month = 1, day = 15, hour = 0, minute = 0, second = 0, microsecond = 0\<rparr> =
     Inr ''STR_TO_DATE('2021-01-15 00:00:00', '%Y-%m-%d %H:%i:%s')'' \<and>
   upper [100, 97, 116, 101, 116, 305, 109, 101] = codepoints ''DATETIME'' \<and>
   convert_dttm MySQLEngineSpec [100, 97, 116, 101, 116, 305, 109, 101]
       \<lparr>year = 2021, month = 1, day = 15, hour = 0, minute = 0, second = 0, microsecond = 0\<rparr> =
     Inr ''STR_TO_DATE('2021-01-15 00:00:00', '%Y-%m-%d %H:%i:%s')'' \<and>
   list_all (\<lambda>c. c < 128) (codepoints ''VARCHAR'') \<and>
   \<not> same_ignoring_case (codepoints ''DATE'') (codepoints ''VARCHAR'') \<and>
   \<not> same_ignoring_case (codepoints ''DATETIME'') (codepoints ''VARCHAR'') \<and>
   upper (codepoints ''VARCHAR'') \<noteq> codepoints ''DATE'' \<and>
   upper (codepoints ''VARCHAR'') \<noteq> codepoints ''DATETIME'' \<and>
   convert_dttm MySQLEngineSpec (codepoints ''VARCHAR'')
       \<lparr>year = 2021, month = 1, day = 15, hour = 0, minute = 0, second = 0, microsecond = 0\<rparr> =
     Inr (CHR 0x27 # ''2021-01-15 00:00:00'' @ [CHR 0x27]) \<and>
   valid_datetime
     \<lparr>year = 2021, month = 1, day = 15, hour = 0, minute = 0, second = 0, microsecond = 0\<rparr> \<and>
   is_timestamp
     \<lparr>year = 2021, month = 1, day = 15, hour = 0, minute = 0, second = 0, microsecond = 0\<rparr>
     ''2021-01-15 00:00:00''"
proof -
  let ?d = "\<lparr>year = 2021, month = 1, day = 15, hour = 0, minute = 0, second = 0,
             microsecond = 0\<rparr>"
  have c1: "same_ignoring_case (codepoints ''DATETIME'') (codepoints ''datetime'')"
    by (simp add: same_ignoring_case_def ascii_fold_def codepoints_values)
  have c2: "upper [100, 97, 116, 101, 116, 305, 109, 101] = codepoints ''DATETIME''"
    by (rule upper_values)
  have c3: "list_all (\<lambda>c. c < 128) (codepoints ''VARCHAR'')"
    "\<not> same_ignoring_case (codepoints ''DATE'') (codepoints ''VARCHAR'')"
    "\<not> same_ignoring_case (codepoints ''DATETIME'') (codepoints ''VARCHAR'')"
    by (simp_all add: same_ignoring_case_def ascii_fold_def codepoints_values)
  have c4: "upper (codepoints ''VARCHAR'') \<noteq> codepoints ''DATE''"
    "upper (codepoints ''VARCHAR'') \<noteq> codepoints ''DATETIME''"
    unfolding upper_values by (simp_all add: codepoints_values)
  have v: "valid_datetime ?d" "1000 \<le> year ?d"
    by (simp_all add: valid_datetime_def days_in_month_def)
  have q: "quoted ''2021-01-15 00:00:00'' = CHR 0x27 # ''2021-01-15 00:00:00'' @ [CHR 0x27]"
    "''STR_TO_DATE('' @ quoted ''2021-01-15 00:00:00'' @ '', '%Y-%m-%d %H:%i:%s')'' =
       ''STR_TO_DATE('2021-01-15 00:00:00', '%Y-%m-%d %H:%i:%s')''"
    by (simp_all add: quoted_def)
  show ?thesis
    using mysql_convert_dttm_str_to_date [of "codepoints ''datetime''" ?d]
      mysql_convert_dttm_str_to_date [of "[100, 97, 116, 101, 116, 305, 109, 101]" ?d]
      mysql_convert_dttm_str_to_date [of "codepoints ''VARCHAR''" ?d]
      c1 c2 c3 c4 v q
    by (simp only: strftime_example simp_thms)
qed

text \<open>
  Claim C9, as the code has it.  \<^verbatim>\<open>BaseEngineSpec.convert_dttm\<close> returns, for every target
  type and every datetime, the \<^verbatim>\<open>strftime\<close> text between single quotes, and two target
  types give the same result; for every datetime that Python can construct with a
  year from 1000 on, the text is the spec's \<open>YYYY-MM-DD HH:MM:SS\<close>.
\<close>

theorem base_convert_dttm_quoted_timestamp:
  "convert_dttm BaseEngineSpec target_type d =
     Inr (quoted (strftime d ''%Y-%m-%d %H:%M:%S'')) \<and>
   convert_dttm BaseEngineSpec target_type' d = convert_dttm BaseEngineSpec target_type d \<and>
   (valid_datetime d \<and> 1000 \<le> year d \<longrightarrow>
      is_timestamp d (strftime d ''%Y-%m-%d %H:%M:%S''))"
  using strftime_is_timestamp [of d] by (simp add: convert_dttm_base)

text \<open>
  The theorem at 2021-01-15 00:00:00 with the target types \<open>DATE\<close> and \<open>TIMESTAMP\<close>.
\<close>

theorem base_convert_dttm_quoted_timestamp_witness:
  "valid_datetime
     \<lparr>year = 2021, month = 1, day = 15, hour = 0, minute = 0, second = 0, microsecond = 0\<rparr> \<and>
   convert_dttm BaseEngineSpec (codepoints ''DATE'')
       \<lparr>year = 2021, month = 1, day = 15, hour = 0, minute = 0, second = 0, microsecond = 0\<rparr> =
     Inr (CHR 0x27 # ''2021-01-15 00:00:00'' @ [CHR 0x27]) \<and>
   convert_dttm BaseEngineSpec (codepoints ''TIMESTAMP'')
       \<lparr>year = 2021, month = 1, day = 15, hour = 0, minute = 0, second = 0, microsecond = 0\<rparr> =
     convert_dttm BaseEngineSpec (codepoints ''DATE'')
       \<lparr>year = 2021, month = 1, day = 15, hour = 0, minute = 0, second = 0, microsecond = 0\<rparr> \<and>
   is_timestamp
     \<lparr>year = 2021, month = 1, day = 15, hour = 0, minute = 0, second = 0, microsecond = 0\<rparr>
     ''2021-01-15 00:00:00''"
proof -
  let ?d = "\<lparr>year = 2021, month = 1, day = 15, hour = 0, minute = 0, second = 0,
             microsecond = 0\<rparr>"
  have v: "valid_datetime ?d" "1000 \<le> year ?d"
    by (simp_all add: valid_datetime_def days_in_month_def)
  have q: "quoted ''2021-01-15 00:00:00'' = CHR 0x27 # ''2021-01-15 00:00:00'' @ [CHR 0x27]"
    by (simp add: quoted_def)
  show ?thesis
    using base_convert_dttm_quoted_timestamp
        [of "codepoints ''DATE''" ?d "codepoints ''TIMESTAMP''"] v q
    by (simp only: strftime_example simp_thms)
qed

text \<open>
  Claim C9 as it is stated fails for a year below 1000: for the first of January of the
  year 99, which Python constructs, the result is \<open>'99-01-01 00:00:00'\<close>, 19 characters
  with the quotes, and its text is not of the form \<open>YYYY-MM-DD HH:MM:SS\<close>.
\<close>

theorem base_convert_dttm_year_99_two_digits:
  "valid_datetime
     \<lparr>year = 99, month = 1, day = 1, hour = 0, minute = 0, second = 0, microsecond = 0\<rparr> \<and>
   convert_dttm BaseEngineSpec (codepoints ''DATE'')
       \<lparr>year = 99, month = 1, day = 1, hour = 0, minute = 0, second = 0, microsecond = 0\<rparr> =
     Inr (CHR 0x27 # ''99-01-01 00:00:00'' @ [CHR 0x27]) \<and>
   length (CHR 0x27 # ''99-01-01 00:00:00'' @ [CHR 0x27]) = 19 \<and>
   \<not> is_timestamp
     \<lparr>year = 99, month = 1, day = 1, hour = 0, minute = 0, second = 0, microsecond = 0\<rparr>
     ''99-01-01 00:00:00''"
  unfolding convert_dttm_base strftime_year_99 quoted_def
  by (simp add: valid_datetime_def days_in_month_def is_timestamp_def)

section \<open>The base class and the registry\<close>

text \<open>
  Claim C7.  On a class in whose resolution order no class other than
  \<^verbatim>\<open>BaseEngineSpec\<close> binds \<^verbatim>\<open>epoch_to_dttm\<close>, the call \<^verbatim>\<open>epoch_to_dttm()\<close> raises
  \<^verbatim>\<open>NotImplementedError\<close> and returns no template.
\<close>

theorem epoch_to_dttm_not_overridden_raises:
  "list_all (\<lambda>k. k = BaseEngineSpec \<or> epoch_to_dttm_own k = None) (mro c) \<Longrightarrow>
     epoch_to_dttm c = Inl NotImplementedError"
  by (cases c) (simp_all add: mro_values epoch_to_dttm_values)

text \<open>The theorem at \<^verbatim>\<open>BaseEngineSpec\<close> itself.\<close>

theorem epoch_to_dttm_not_overridden_raises_witness:
  "list_all (\<lambda>k. k = BaseEngineSpec \<or> epoch_to_dttm_own k = None) (mro BaseEngineSpec) \<and>
   epoch_to_dttm BaseEngineSpec = Inl NotImplementedError"
proof -
  have h: "list_all (\<lambda>k. k = BaseEngineSpec \<or> epoch_to_dttm_own k = None)
             (mro BaseEngineSpec)"
    by (simp add: mro_values)
  show ?thesis
    using h epoch_to_dttm_not_overridden_raises [OF h] by simp
qed

text \<open>
  Claim C10.  The keys of \<open>engines\<close> are exactly the nine identifiers \<open>base\<close>,
  \<open>postgres\<close>, \<open>sqlite\<close>, \<open>mysql\<close>, \<open>presto\<close>, \<open>mssql\<close>, \<open>redshift\<close>, \<open>oracle\<close> and
  \<open>vertica\<close>; every class is stored under its own \<^verbatim>\<open>engine\<close>; in particular \<open>base\<close> is a
  key, its value is \<^verbatim>\<open>BaseEngineSpec\<close>, and \<^verbatim>\<open>epoch_to_dttm()\<close> on that class raises
  \<^verbatim>\<open>NotImplementedError\<close>.
\<close>

theorem engines_registry_contents:
  "dom engines =
     {''base'', ''postgres'', ''sqlite'', ''mysql'', ''presto'', ''mssql'', ''redshift'',
      ''oracle'', ''vertica''} \<and>
   engines (engine c) = Some c \<and>
   engines ''base'' = Some BaseEngineSpec \<and>
   epoch_to_dttm BaseEngineSpec = Inl NotImplementedError"
  by (cases c) (simp_all add: dom_engines engines_lookup epoch_to_dttm_values)

end
